theory Spec2Isabelle
  imports Complex_Main
begin

section \<open>Student document portal: the backend of \<^verbatim>\<open>backend/app.py\<close>\<close>

text \<open>
  The Flask application is embedded function by function. What the Python keeps in module
  globals, in the database and on disk is one explicit \<open>state\<close> record that every handler
  takes and returns. What a handler reads from its surroundings (the clock, the signing
  key, the password hasher, the filename sanitiser, the fresh UUID of a new row) is the
  \<open>env\<close> record of the request. The clock reads \<open>now\<close> while a request is served.
  \<open>login\<close> reads it twice in a row when it builds a token, once for the issued-at and
  once for the expiry: the first of these reads returns \<open>now\<close>, the second \<open>now2\<close>.
  Times are real numbers of seconds since the epoch; the rounding of Python floats is not
  modelled.
\<close>

subsection \<open>Python helpers\<close>

definition digit_chars :: string where
  "digit_chars = ''0123456789''"

function str_nat :: "nat \<Rightarrow> string" where
  "str_nat n = (if n < 10 then [digit_chars ! n]
                else str_nat (n div 10) @ [digit_chars ! (n mod 10)])"
  by pat_completeness auto
termination
  by (relation "measure (\<lambda>n. n)") auto

declare str_nat.simps [simp del]

text \<open>\<^verbatim>\<open>str(i)\<close> for an integer, as an f-string renders it.\<close>

definition str_int :: "int \<Rightarrow> string" where
  "str_int i = (if i < 0 then CHR ''-'' # str_nat (nat (- i)) else str_nat (nat i))"

text \<open>\<^verbatim>\<open>int(x)\<close> for a float: truncation towards zero.\<close>

definition py_int :: "real \<Rightarrow> int" where
  "py_int x = (if x < 0 then \<lceil>x\<rceil> else \<lfloor>x\<rfloor>)"

definition lower_char :: "char \<Rightarrow> char" where
  "lower_char c =
     (case map_of (zip ''ABCDEFGHIJKLMNOPQRSTUVWXYZ'' ''abcdefghijklmnopqrstuvwxyz'') c of
        Some l \<Rightarrow> l
      | None \<Rightarrow> c)"

text \<open>\<^verbatim>\<open>s.lower()\<close>, on the ASCII letters.\<close>

definition py_lower :: "string \<Rightarrow> string" where
  "py_lower s = map lower_char s"

text \<open>\<^verbatim>\<open>s.endswith(suf)\<close>.\<close>

definition endswith :: "string \<Rightarrow> string \<Rightarrow> bool" where
  "endswith s suf = (length suf \<le> length s \<and> drop (length s - length suf) s = suf)"

subsection \<open>Configuration\<close>

definition JWT_EXPIRATION_SECONDS :: int where
  "JWT_EXPIRATION_SECONDS = 3600"

definition BLOCK_THRESHOLD :: int where
  "BLOCK_THRESHOLD = 10"

definition BLOCK_DURATION :: real where
  "BLOCK_DURATION = 60"

subsection \<open>Database models\<close>

record user =
  u_id :: int
  u_email :: string
  u_password_hash :: string
  u_created_at :: real

record document =
  d_id :: string
  d_user_id :: int
  d_original_name :: string
  d_stored_name :: string
  d_uploaded_at :: real

text \<open>
  The dictionary \<^verbatim>\<open>serialize_document\<close> builds: the owner is not part of it.
  \<^verbatim>\<open>isoformat()\<close> of the upload time is kept as the time itself.
\<close>

record serialized_document =
  s_id :: string
  s_original_name :: string
  s_stored_name :: string
  s_uploaded_at :: real

definition serialize_document :: "document \<Rightarrow> serialized_document" where
  "serialize_document doc =
     \<lparr>s_id = d_id doc, s_original_name = d_original_name doc,
      s_stored_name = d_stored_name doc, s_uploaded_at = d_uploaded_at doc\<rparr>"

text \<open>\<^verbatim>\<open>User.query.get(pk)\<close>; a missing \<^verbatim>\<open>sub\<close> is \<^verbatim>\<open>get(None)\<close>, which finds nothing.\<close>

definition User_query_get :: "user list \<Rightarrow> int option \<Rightarrow> user option" where
  "User_query_get us pk =
     (case pk of None \<Rightarrow> None | Some i \<Rightarrow> find (\<lambda>u. u_id u = i) us)"

text \<open>\<^verbatim>\<open>User.query.filter_by(email=email).first()\<close>.\<close>

definition User_query_filter_by_email_first :: "user list \<Rightarrow> string \<Rightarrow> user option" where
  "User_query_filter_by_email_first us email = find (\<lambda>u. u_email u = email) us"

text \<open>\<^verbatim>\<open>Document.query.get(doc_id)\<close>.\<close>

definition Document_query_get :: "document list \<Rightarrow> string \<Rightarrow> document option" where
  "Document_query_get ds doc_id = find (\<lambda>d. d_id d = doc_id) ds"

text \<open>\<^verbatim>\<open>Document.query.filter_by(user_id=uid).all()\<close>, rows in insertion order.\<close>

definition Document_query_filter_by_user_id_all :: "document list \<Rightarrow> int \<Rightarrow> document list" where
  "Document_query_filter_by_user_id_all ds uid = filter (\<lambda>d. d_user_id d = uid) ds"

subsection \<open>Tokens\<close>

text \<open>
  PyJWT is a library outside the repository. Its compact serialisation and the HMAC are
  not modelled: a token is either text that does not parse as a JWT, or a payload together
  with the key it was signed under, and a signature verifies exactly when that key is the
  verifier's. A payload is a JSON object, so each entry may be absent. \<^verbatim>\<open>jwt.encode\<close>
  writes a \<^verbatim>\<open>datetime\<close> as whole seconds since the epoch. The subject is the integer
  user id, as \<open>login\<close> writes it and \<open>auth_required\<close> reads it back.
\<close>

record payload =
  p_sub :: "int option"
  p_email :: "string option"
  p_iat :: "int option"
  p_exp :: "int option"

datatype token = Jwt string payload | NotJwt string

datatype jwt_error = ExpiredSignatureError | InvalidTokenError

definition jwt_encode :: "payload \<Rightarrow> string \<Rightarrow> token" where
  "jwt_encode p key = Jwt key p"

text \<open>
  \<^verbatim>\<open>jwt.decode(token, key, algorithms=["HS256"])\<close>: the signature first, then the
  registered claims that are present. A token issued in the future is refused with a
  subclass of \<^verbatim>\<open>InvalidTokenError\<close>; a token whose \<^verbatim>\<open>exp\<close> is not after the
  current time raises \<^verbatim>\<open>ExpiredSignatureError\<close>.
\<close>

definition jwt_decode :: "token \<Rightarrow> string \<Rightarrow> real \<Rightarrow> jwt_error + payload" where
  "jwt_decode tok key t =
     (case tok of
        NotJwt _ \<Rightarrow> Inl InvalidTokenError
      | Jwt k p \<Rightarrow>
          if k \<noteq> key then Inl InvalidTokenError
          else if (case p_iat p of Some i \<Rightarrow> t < of_int i | None \<Rightarrow> False)
            then Inl InvalidTokenError
          else if (case p_exp p of Some x \<Rightarrow> of_int x \<le> t | None \<Rightarrow> False)
            then Inl ExpiredSignatureError
          else Inr p)"

subsection \<open>Requests, responses, state\<close>

text \<open>
  The \<^verbatim>\<open>Authorization\<close> header: \<open>Bearer tok\<close> is the text \<^verbatim>\<open>"Bearer "\<close> followed by
  a token; \<open>NoBearer s\<close> is any other header text, the empty default of an absent header
  included.
\<close>

datatype authorization = NoBearer string | Bearer token

text \<open>A werkzeug \<^verbatim>\<open>FileStorage\<close>: the part's metadata and its stream with a read position.\<close>

record file_storage =
  mimetype :: string
  filename :: string
  content :: string
  position :: nat

datatype route = PostLogin | PostUpload | GetDocuments | GetDownload

record request =
  route :: route
  remote_addr :: string
  authorization :: authorization
  json_email :: "string option"
  json_password :: "string option"
  files_file :: "file_storage option"
  args_file_id :: "string option"

datatype body =
    Error string
  | LoginSuccessful int string token
  | FileUploaded serialized_document
  | DocumentList "serialized_document list"
  | Attachment string string
  | NotFoundPage
  | InternalServerError

type_synonym response = "body \<times> nat"

record state =
  FAILED_ATTEMPTS :: "string \<Rightarrow> int"
  BLOCKED_IPS :: "string \<rightharpoonup> real"
  users :: "user list"
  documents :: "document list"
  upload_folder :: "string \<rightharpoonup> string"
  security_log :: "string list"

text \<open>
  \<open>generate_password_hash\<close>, \<open>check_password_hash\<close> and \<open>secure_filename\<close> are
  werkzeug's and are taken as they come; \<open>new_uuid\<close> is the \<^verbatim>\<open>uuid4()\<close> drawn for a
  row inserted by this request.
\<close>

record env =
  now :: real
  now2 :: real
  JWT_SECRET_KEY :: string
  generate_password_hash :: "string \<Rightarrow> string"
  check_password_hash :: "string \<Rightarrow> string \<Rightarrow> bool"
  secure_filename :: "string \<Rightarrow> string"
  new_uuid :: string

subsection \<open>Rate limiting\<close>

text \<open>
  \<^verbatim>\<open>FAILED_ATTEMPTS\<close> is a \<^verbatim>\<open>defaultdict(int)\<close>: a total function that is 0 where
  nothing was stored. \<^verbatim>\<open>BLOCKED_IPS\<close> is a plain dictionary.
\<close>

definition is_ip_blocked :: "real \<Rightarrow> string \<Rightarrow> state \<Rightarrow> bool \<times> state" where
  "is_ip_blocked t ip st =
     (case BLOCKED_IPS st ip of
        Some until \<Rightarrow>
          if t < until then (True, st)
          else (False, st\<lparr>BLOCKED_IPS := (BLOCKED_IPS st)(ip := None)\<rparr>)
      | None \<Rightarrow> (False, st))"

definition register_failed_attempt :: "real \<Rightarrow> string \<Rightarrow> state \<Rightarrow> state" where
  "register_failed_attempt t ip st =
     (let st1 = st\<lparr>FAILED_ATTEMPTS := (FAILED_ATTEMPTS st)(ip := FAILED_ATTEMPTS st ip + 1)\<rparr>
      in if FAILED_ATTEMPTS st1 ip \<ge> BLOCK_THRESHOLD
         then st1\<lparr>BLOCKED_IPS := (BLOCKED_IPS st1)(ip \<mapsto> t + BLOCK_DURATION),
                  security_log := security_log st1 @ [''IP blocked due to excessive failures: '' @ ip]\<rparr>
         else st1)"

subsection \<open>Upload validation\<close>

text \<open>\<^verbatim>\<open>file.read(4)\<close> followed by \<^verbatim>\<open>file.seek(0)\<close> moves the stream; the file comes back.\<close>

definition validate_pdf :: "file_storage \<Rightarrow> bool \<times> file_storage" where
  "validate_pdf file =
     (if mimetype file \<noteq> ''application/pdf'' then (False, file)
      else
        let header = take 4 (drop (position file) (content file));
            file1 = file\<lparr>position := 0\<rparr>
        in if header \<noteq> ''%PDF'' then (False, file1)
           else if \<not> endswith (py_lower (filename file1)) ''.pdf'' then (False, file1)
           else (True, file1))"

definition ensure_safe_filename :: "env \<Rightarrow> string \<Rightarrow> string" where
  "ensure_safe_filename e fname = secure_filename e fname"

subsection \<open>Authentication\<close>

text \<open>
  The decorator: \<open>fn\<close> is the wrapped view, which receives \<^verbatim>\<open>g.current_user\<close> as its
  first argument.
\<close>

definition auth_required ::
  "(user \<Rightarrow> env \<Rightarrow> request \<Rightarrow> state \<Rightarrow> response \<times> state) \<Rightarrow>
   env \<Rightarrow> request \<Rightarrow> state \<Rightarrow> response \<times> state" where
  "auth_required fn e r st =
     (let ip = remote_addr r;
          (blocked, st1) = is_ip_blocked (now e) ip st
      in if blocked
         then ((Error ''Too many failed attempts. Try again later.'', 429),
               st1\<lparr>security_log := security_log st1 @ [''Blocked IP attempted request: '' @ ip]\<rparr>)
         else
           (case authorization r of
              NoBearer _ \<Rightarrow>
                ((Error ''Authentication required'', 401), register_failed_attempt (now e) ip st1)
            | Bearer tok \<Rightarrow>
                (case jwt_decode tok (JWT_SECRET_KEY e) (now e) of
                   Inl ExpiredSignatureError \<Rightarrow>
                     ((Error ''Token expired'', 401), register_failed_attempt (now e) ip st1)
                 | Inl InvalidTokenError \<Rightarrow>
                     ((Error ''Invalid token'', 401), register_failed_attempt (now e) ip st1)
                 | Inr pl \<Rightarrow>
                     (case User_query_get (users st1) (p_sub pl) of
                        None \<Rightarrow>
                          ((Error ''User not found'', 401), register_failed_attempt (now e) ip st1)
                      | Some usr \<Rightarrow> fn usr e r st1))))"

subsection \<open>Login\<close>

text \<open>
  \<^verbatim>\<open>data.get("email")\<close> and \<^verbatim>\<open>request.args.get("file_id")\<close> give a string or
  \<^verbatim>\<open>None\<close>; \<open>truthy\<close> keeps the string when Python's \<^verbatim>\<open>not\<close> of it is false, that
  is when it is present and not empty.
\<close>

definition truthy :: "string option \<Rightarrow> string option" where
  "truthy s = (case s of None \<Rightarrow> None | Some v \<Rightarrow> if v = [] then None else Some v)"

definition login :: "env \<Rightarrow> request \<Rightarrow> state \<Rightarrow> response \<times> state" where
  "login e r st =
     (let ip = remote_addr r
      in case (truthy (json_email r), truthy (json_password r)) of
           (Some email, Some password) \<Rightarrow>
             (case User_query_filter_by_email_first (users st) email of
                None \<Rightarrow>
                  ((Error ''Invalid credentials'', 401), register_failed_attempt (now e) ip st)
              | Some usr \<Rightarrow>
                  if \<not> check_password_hash e (u_password_hash usr) password
                  then ((Error ''Invalid credentials'', 401),
                        register_failed_attempt (now e) ip st)
                  else
                    let st1 = st\<lparr>FAILED_ATTEMPTS := (FAILED_ATTEMPTS st)(ip := 0)\<rparr>;
                        pl = \<lparr>p_sub = Some (u_id usr), p_email = Some (u_email usr),
                              p_iat = Some \<lfloor>now e\<rfloor>,
                              p_exp = Some (\<lfloor>now2 e\<rfloor> + JWT_EXPIRATION_SECONDS)\<rparr>;
                        tok = jwt_encode pl (JWT_SECRET_KEY e)
                    in ((LoginSuccessful (u_id usr) (u_email usr) tok, 200), st1))
         | _ \<Rightarrow> ((Error ''Email and password required'', 400), st))"

subsection \<open>Upload, list, download\<close>

text \<open>
  \<^verbatim>\<open>file.save\<close> writes the stream from its position into the upload folder. The commit
  of a row whose primary key is already taken raises, which Flask answers with 500.
\<close>

definition upload_document :: "user \<Rightarrow> env \<Rightarrow> request \<Rightarrow> state \<Rightarrow> response \<times> state" where
  "upload_document current_user e r st =
     (case files_file r of
        None \<Rightarrow> ((Error ''No file uploaded'', 400), st)
      | Some file \<Rightarrow>
          let (ok, file1) = validate_pdf file
          in if \<not> ok then ((Error ''Only PDF files are allowed'', 400), st)
             else
               let safe_original = ensure_safe_filename e (filename file1);
                   timestamp = py_int (now e);
                   stored_name = str_int (u_id current_user) @ ''_'' @ str_int timestamp
                                 @ ''_'' @ safe_original;
                   st1 = st\<lparr>upload_folder := (upload_folder st)
                               (stored_name \<mapsto> drop (position file1) (content file1))\<rparr>;
                   doc = \<lparr>d_id = new_uuid e, d_user_id = u_id current_user,
                          d_original_name = safe_original, d_stored_name = stored_name,
                          d_uploaded_at = now e\<rparr>
               in if Document_query_get (documents st1) (d_id doc) \<noteq> None
                  then ((InternalServerError, 500), st1)
                  else ((FileUploaded (serialize_document doc), 200),
                        st1\<lparr>documents := documents st1 @ [doc]\<rparr>))"

definition list_documents :: "user \<Rightarrow> env \<Rightarrow> request \<Rightarrow> state \<Rightarrow> response \<times> state" where
  "list_documents current_user e r st =
     (let docs = Document_query_filter_by_user_id_all (documents st) (u_id current_user)
      in ((DocumentList (map serialize_document docs), 200), st))"

text \<open>\<^verbatim>\<open>send_from_directory\<close> answers 404 when the stored file is not there.\<close>

definition download_document :: "user \<Rightarrow> env \<Rightarrow> request \<Rightarrow> state \<Rightarrow> response \<times> state" where
  "download_document current_user e r st =
     (let ip = remote_addr r
      in case truthy (args_file_id r) of
           None \<Rightarrow> ((Error ''file_id is required'', 400), st)
         | Some doc_id \<Rightarrow>
             (case Document_query_get (documents st) doc_id of
                None \<Rightarrow> ((Error ''File not found'', 404), st)
              | Some doc \<Rightarrow>
                  if d_user_id doc \<noteq> u_id current_user
                  then
                    ((Error ''Not authorized to download this file'', 403),
                     register_failed_attempt (now e) ip
                       (st\<lparr>security_log := security_log st @
                            [''Unauthorized download attempt: user=''
                             @ str_int (u_id current_user)
                             @ '' tried file='' @ doc_id @ '' from IP='' @ ip]\<rparr>))
                  else
                    (case upload_folder st (d_stored_name doc) of
                       None \<Rightarrow> ((NotFoundPage, 404), st)
                     | Some bytes \<Rightarrow> ((Attachment (d_stored_name doc) bytes, 200), st))))"

text \<open>The routing table of the application.\<close>

definition handle :: "env \<Rightarrow> request \<Rightarrow> state \<Rightarrow> response \<times> state" where
  "handle e r st =
     (case route r of
        PostLogin \<Rightarrow> login e r st
      | PostUpload \<Rightarrow> auth_required upload_document e r st
      | GetDocuments \<Rightarrow> auth_required list_documents e r st
      | GetDownload \<Rightarrow> auth_required download_document e r st)"

subsection \<open>Start-up\<close>

definition mock_users :: "(string \<times> string) list" where
  "mock_users =
     [(''test@student.com'', ''password123''), (''test1@student.com'', ''password123'')]"

text \<open>The integer primary key the database gives the next user row.\<close>

definition next_user_id :: "user list \<Rightarrow> int" where
  "next_user_id us = fold max (map u_id us) 0 + 1"

definition seed_mock_user :: "env \<Rightarrow> state \<Rightarrow> state" where
  "seed_mock_user e st =
     (let existing = map u_email (users st);
          missing = filter (\<lambda>(email, pwd). email \<notin> set existing) mock_users
      in st\<lparr>users :=
              fold (\<lambda>(email, pwd) us. us @
                     [\<lparr>u_id = next_user_id us, u_email = email,
                       u_password_hash = generate_password_hash e pwd,
                       u_created_at = now e\<rparr>])
                missing (users st)\<rparr>)"

text \<open>The process right after \<^verbatim>\<open>db.create_all()\<close> on a new database.\<close>

definition empty_state :: state where
  "empty_state =
     \<lparr>FAILED_ATTEMPTS = (\<lambda>_. 0), BLOCKED_IPS = Map.empty, users = [], documents = [],
      upload_folder = Map.empty, security_log = []\<rparr>"

text \<open>Serving a sequence of requests, each with its own surroundings.\<close>

fun run :: "(env \<times> request) list \<Rightarrow> state \<Rightarrow> state" where
  "run [] st = st"
| "run ((e, r) # rs) st = run rs (snd (handle e r st))"

subsection \<open>The gateway's success path\<close>

text \<open>
  The conditions under which \<open>auth_required\<close> reaches the wrapped view with \<open>usr\<close> as
  the current user: the address is not blocked, the header carries a token, the token
  decodes, and its subject is a stored user.
\<close>

definition authenticated_as :: "env \<Rightarrow> request \<Rightarrow> state \<Rightarrow> user \<Rightarrow> bool" where
  "authenticated_as e r st usr =
     (\<not> fst (is_ip_blocked (now e) (remote_addr r) st) \<and>
      (case authorization r of
         NoBearer _ \<Rightarrow> False
       | Bearer tok \<Rightarrow>
           (case jwt_decode tok (JWT_SECRET_KEY e) (now e) of
              Inl _ \<Rightarrow> False
            | Inr pl \<Rightarrow> User_query_get (users st) (p_sub pl) = Some usr)))"

subsection \<open>A concrete deployment\<close>

text \<open>
  The surroundings of the examples: the default signing key of the configuration, a
  hasher that prefixes the password, a sanitiser that leaves a safe name as it is, and a
  clock that has not moved between the two reads of a login.
\<close>

definition demo_env :: "real \<Rightarrow> string \<Rightarrow> env" where
  "demo_env t uuid =
     \<lparr>now = t, now2 = t, JWT_SECRET_KEY = ''super-secret-demo-key'',
      generate_password_hash = (\<lambda>p. ''hash:'' @ p),
      check_password_hash = (\<lambda>h p. h = ''hash:'' @ p),
      secure_filename = (\<lambda>s. s), new_uuid = uuid\<rparr>"

definition seeded :: state where
  "seeded = seed_mock_user (demo_env 0 []) empty_state"

definition login_request :: "string \<Rightarrow> string \<Rightarrow> string \<Rightarrow> request" where
  "login_request ip em pw =
     \<lparr>route = PostLogin, remote_addr = ip, authorization = NoBearer [],
      json_email = Some em, json_password = Some pw, files_file = None,
      args_file_id = None\<rparr>"

definition protected_request ::
  "route \<Rightarrow> string \<Rightarrow> authorization \<Rightarrow> file_storage option \<Rightarrow> string option \<Rightarrow> request" where
  "protected_request rt ip hdr file fid =
     \<lparr>route = rt, remote_addr = ip, authorization = hdr, json_email = None,
      json_password = None, files_file = file, args_file_id = fid\<rparr>"

text \<open>The token a login of user \<open>uid\<close> at time \<open>t\<close> hands out in this deployment.\<close>

definition demo_token :: "int \<Rightarrow> string \<Rightarrow> int \<Rightarrow> token" where
  "demo_token uid em t =
     Jwt ''super-secret-demo-key''
       \<lparr>p_sub = Some uid, p_email = Some em, p_iat = Some t, p_exp = Some (t + 3600)\<rparr>"

definition demo_pdf :: "string \<Rightarrow> file_storage" where
  "demo_pdf fname =
     \<lparr>mimetype = ''application/pdf'', filename = fname, content = ''%PDF-1.4 homework'',
      position = 0\<rparr>"

definition demo_users :: "user list" where
  "demo_users =
     [\<lparr>u_id = 1, u_email = ''test@student.com'', u_password_hash = ''hash:password123'',
       u_created_at = 0\<rparr>,
      \<lparr>u_id = 2, u_email = ''test1@student.com'', u_password_hash = ''hash:password123'',
       u_created_at = 0\<rparr>]"

text \<open>The seeded deployment after each of the two users has uploaded one PDF.\<close>

definition with_documents :: state where
  "with_documents =
     run [(demo_env 1000 ''uuid-a'',
           protected_request PostUpload ''10.0.0.1''
             (Bearer (demo_token 1 ''test@student.com'' 900))
             (Some (demo_pdf ''hw1.pdf'')) None),
          (demo_env 1001 ''uuid-b'',
           protected_request PostUpload ''10.0.0.2''
             (Bearer (demo_token 2 ''test1@student.com'' 900))
             (Some (demo_pdf ''notes.PDF'')) None)]
       seeded"

definition demo_user_1 :: user where
  "demo_user_1 =
     \<lparr>u_id = 1, u_email = ''test@student.com'', u_password_hash = ''hash:password123'',
      u_created_at = 0\<rparr>"

text \<open>An image sent under a PDF's declared type and name.\<close>

definition demo_gif :: file_storage where
  "demo_gif =
     \<lparr>mimetype = ''application/pdf'', filename = ''cat.pdf'', content = ''GIF89a'',
      position = 0\<rparr>"

text \<open>The seeded deployment after ten logins with a wrong password from one address.\<close>

definition after_ten_failures :: state where
  "after_ten_failures =
     run (replicate 10
            (demo_env 1000 [], login_request ''10.0.0.9'' ''test@student.com'' ''guess''))
       seeded"

text \<open>
  The deployment with the two documents after three requests without a token from the
  address of the first user.
\<close>

definition after_three_missing_tokens :: state where
  "after_three_missing_tokens =
     run (replicate 3
            (demo_env 1500 [],
             protected_request GetDocuments ''10.0.0.1'' (NoBearer []) None None))
       with_documents"

text \<open>The address logs in with the right password one second after its block has run out.\<close>

definition after_login_past_block :: state where
  "after_login_past_block =
     snd (handle (demo_env 1061 [])
            (login_request ''10.0.0.9'' ''test@student.com'' ''password123'')
            after_ten_failures)"

text \<open>
  A login whose two clock reads fall on either side of a full second: the issued-at is
  read half a microsecond before second 1001 begins, the expiry 0.7 microseconds later.
\<close>

definition demo_env_two_reads :: env where
  "demo_env_two_reads =
     (demo_env (10009999995 / 10000000) [])\<lparr>now2 := 10010000002 / 10000000\<rparr>"

text \<open>The token that login hands out.\<close>

definition two_reads_token :: token where
  "two_reads_token =
     Jwt ''super-secret-demo-key''
       \<lparr>p_sub = Some 1, p_email = Some ''test@student.com'', p_iat = Some 1000,
        p_exp = Some 4601\<rparr>"

section \<open>Properties\<close>

subsection \<open>The throttle and the queries\<close>

lemma is_ip_blocked_frame:
  "FAILED_ATTEMPTS (snd (is_ip_blocked t ip st)) = FAILED_ATTEMPTS st"
  "users (snd (is_ip_blocked t ip st)) = users st"
  "documents (snd (is_ip_blocked t ip st)) = documents st"
  "upload_folder (snd (is_ip_blocked t ip st)) = upload_folder st"
  "security_log (snd (is_ip_blocked t ip st)) = security_log st"
  by (simp_all add: is_ip_blocked_def split: option.splits)

lemma is_ip_blocked_clears:
  "\<not> fst (is_ip_blocked t ip st) \<Longrightarrow> BLOCKED_IPS (snd (is_ip_blocked t ip st)) ip = None"
  by (simp add: is_ip_blocked_def split: option.splits if_splits)

lemma is_ip_blocked_active:
  "BLOCKED_IPS st ip = Some u \<Longrightarrow> t < u \<Longrightarrow> fst (is_ip_blocked t ip st)"
  by (simp add: is_ip_blocked_def)

lemma register_failed_attempt_frame:
  "users (register_failed_attempt t ip st) = users st"
  "documents (register_failed_attempt t ip st) = documents st"
  "upload_folder (register_failed_attempt t ip st) = upload_folder st"
  by (simp_all add: register_failed_attempt_def Let_def)

lemma register_failed_attempt_counter:
  "FAILED_ATTEMPTS (register_failed_attempt t ip st) =
     (FAILED_ATTEMPTS st)(ip := FAILED_ATTEMPTS st ip + 1)"
  by (simp add: register_failed_attempt_def Let_def)

lemma register_failed_attempt_mono:
  "FAILED_ATTEMPTS st ip \<le> FAILED_ATTEMPTS (register_failed_attempt t ip' st) ip"
  by (simp add: register_failed_attempt_counter)

lemma register_failed_attempt_log:
  "set (security_log st) \<subseteq> set (security_log (register_failed_attempt t ip st))"
  by (auto simp: register_failed_attempt_def Let_def)

lemma register_failed_attempt_blocks:
  "BLOCK_THRESHOLD \<le> FAILED_ATTEMPTS st ip + 1 \<Longrightarrow>
     BLOCKED_IPS (register_failed_attempt t ip st) ip = Some (t + BLOCK_DURATION)"
  by (simp add: register_failed_attempt_def Let_def)

lemma find_Some_D: "find P xs = Some x \<Longrightarrow> x \<in> set xs \<and> P x"
  by (induction xs) (auto split: if_splits)

lemma User_query_get_id: "User_query_get us pk = Some usr \<Longrightarrow> pk = Some (u_id usr)"
  by (auto simp: User_query_get_def split: option.splits dest: find_Some_D)

subsection \<open>The gateway and the views\<close>

lemma auth_required_authenticated:
  assumes "authenticated_as e r st usr"
  shows "auth_required fn e r st = fn usr e r (snd (is_ip_blocked (now e) (remote_addr r) st))"
  using assms
  by (auto simp: authenticated_as_def auth_required_def Let_def is_ip_blocked_frame
      case_prod_unfold split: authorization.splits sum.splits)

lemma auth_required_cases:
  "(\<exists>usr. authenticated_as e r st usr
        \<and> auth_required fn e r st = fn usr e r (snd (is_ip_blocked (now e) (remote_addr r) st)))
   \<or> (snd (fst (auth_required fn e r st)) \<in> {401, 429}
       \<and> users (snd (auth_required fn e r st)) = users st
       \<and> documents (snd (auth_required fn e r st)) = documents st
       \<and> upload_folder (snd (auth_required fn e r st)) = upload_folder st)"
  by (auto simp: authenticated_as_def auth_required_def Let_def case_prod_unfold
      is_ip_blocked_frame register_failed_attempt_frame
      split: authorization.splits sum.splits jwt_error.splits option.splits)

lemma auth_required_documents:
  assumes "\<And>usr s. \<exists>new. documents (snd (fn usr e r s)) = documents s @ new"
  shows "\<exists>new. documents (snd (auth_required fn e r st)) = documents st @ new"
proof -
  from auth_required_cases [of e r st fn]
  consider usr where "auth_required fn e r st
        = fn usr e r (snd (is_ip_blocked (now e) (remote_addr r) st))"
    | "documents (snd (auth_required fn e r st)) = documents st"
    by blast
  then show ?thesis
  proof cases
    case 1
    with assms [of usr "snd (is_ip_blocked (now e) (remote_addr r) st)"]
    show ?thesis by (simp add: is_ip_blocked_frame)
  next
    case 2
    then show ?thesis by simp
  qed
qed

lemma auth_required_counter_mono:
  assumes "\<And>usr s. FAILED_ATTEMPTS s ip \<le> FAILED_ATTEMPTS (snd (fn usr e r s)) ip"
  shows "FAILED_ATTEMPTS st ip \<le> FAILED_ATTEMPTS (snd (auth_required fn e r st)) ip"
  using assms [of "snd (is_ip_blocked (now e) (remote_addr r) st)"]
  by (auto simp: auth_required_def Let_def case_prod_unfold is_ip_blocked_frame
      register_failed_attempt_counter
      split: authorization.splits sum.splits jwt_error.splits option.splits)

lemma upload_document_documents:
  "documents (snd (upload_document usr e r st)) = documents st
   \<or> (snd (fst (upload_document usr e r st)) = 200
       \<and> (\<exists>doc. documents (snd (upload_document usr e r st)) = documents st @ [doc]
            \<and> d_user_id doc = u_id usr))"
  by (auto simp: upload_document_def Let_def case_prod_unfold split: option.splits)

lemma upload_document_200:
  "snd (fst (upload_document usr e r st)) = 200 \<Longrightarrow>
     \<exists>doc. documents (snd (upload_document usr e r st)) = documents st @ [doc]
            \<and> d_user_id doc = u_id usr"
  by (auto simp: upload_document_def Let_def case_prod_unfold split: option.splits if_splits)

lemma download_document_documents:
  "documents (snd (download_document usr e r st)) = documents st"
  by (simp add: download_document_def Let_def register_failed_attempt_frame
      split: option.splits)

lemma list_documents_documents:
  "documents (snd (list_documents usr e r st)) = documents st"
  by (simp add: list_documents_def Let_def)

lemma login_documents: "documents (snd (login e r st)) = documents st"
  by (simp add: login_def Let_def register_failed_attempt_frame
      split: option.splits prod.splits)

lemma handle_documents: "\<exists>new. documents (snd (handle e r st)) = documents st @ new"
proof (cases "route r")
  case PostLogin
  then show ?thesis by (simp add: handle_def login_documents)
next
  case PostUpload
  have "\<exists>new. documents (snd (upload_document usr e r s)) = documents s @ new" for usr s
    using upload_document_documents [of usr e r s] by auto
  from auth_required_documents [of upload_document, OF this]
  show ?thesis by (simp add: handle_def PostUpload)
next
  case GetDocuments
  from auth_required_documents [of list_documents]
  show ?thesis by (simp add: handle_def GetDocuments list_documents_documents)
next
  case GetDownload
  from auth_required_documents [of download_document]
  show ?thesis by (simp add: handle_def GetDownload download_document_documents)
qed

lemma upload_document_counter:
  "FAILED_ATTEMPTS (snd (upload_document usr e r st)) = FAILED_ATTEMPTS st"
  by (simp add: upload_document_def Let_def case_prod_unfold split: option.splits)

lemma list_documents_counter:
  "FAILED_ATTEMPTS (snd (list_documents usr e r st)) = FAILED_ATTEMPTS st"
  by (simp add: list_documents_def Let_def)

lemma download_document_counter_mono:
  "FAILED_ATTEMPTS st ip \<le> FAILED_ATTEMPTS (snd (download_document usr e r st)) ip"
  by (simp add: download_document_def Let_def register_failed_attempt_counter
      split: option.splits)

lemma login_counter_mono:
  "snd (fst (login e r st)) \<noteq> 200 \<Longrightarrow>
     FAILED_ATTEMPTS st ip \<le> FAILED_ATTEMPTS (snd (login e r st)) ip"
  by (auto simp: login_def Let_def register_failed_attempt_counter
      split: option.splits prod.splits if_splits)

lemma handle_counter_mono:
  assumes "route r \<noteq> PostLogin \<or> snd (fst (handle e r st)) \<noteq> 200"
  shows "FAILED_ATTEMPTS st ip \<le> FAILED_ATTEMPTS (snd (handle e r st)) ip"
proof (cases "route r")
  case PostLogin
  with assms show ?thesis by (simp add: handle_def login_counter_mono)
next
  case PostUpload
  from auth_required_counter_mono [of ip upload_document e r st]
  show ?thesis by (simp add: handle_def PostUpload upload_document_counter)
next
  case GetDocuments
  from auth_required_counter_mono [of ip list_documents e r st]
  show ?thesis by (simp add: handle_def GetDocuments list_documents_counter)
next
  case GetDownload
  from auth_required_counter_mono [of ip download_document e r st]
  show ?thesis by (simp add: handle_def GetDownload download_document_counter_mono)
qed

subsection \<open>The concrete deployment\<close>

lemma users_seeded:
  "users seeded =
     [\<lparr>u_id = 1, u_email = ''test@student.com'', u_password_hash = ''hash:password123'',
       u_created_at = 0\<rparr>,
      \<lparr>u_id = 2, u_email = ''test1@student.com'', u_password_hash = ''hash:password123'',
       u_created_at = 0\<rparr>]"
  by (simp add: seeded_def seed_mock_user_def empty_state_def mock_users_def next_user_id_def
      demo_env_def)

lemma seeded_rest:
  "FAILED_ATTEMPTS seeded = (\<lambda>_. 0)" "BLOCKED_IPS seeded = Map.empty"
  "documents seeded = []" "upload_folder seeded = Map.empty" "security_log seeded = []"
  by (simp_all add: seeded_def seed_mock_user_def empty_state_def)

lemmas demo_defs = handle_def login_def login_request_def protected_request_def demo_env_def
  truthy_def User_query_filter_by_email_first_def User_query_get_def users_seeded seeded_rest
  register_failed_attempt_def is_ip_blocked_def BLOCK_THRESHOLD_def BLOCK_DURATION_def
  JWT_EXPIRATION_SECONDS_def jwt_encode_def jwt_decode_def auth_required_def Let_def
  demo_token_def

lemma str_int_small:
  "str_int 1 = ''1''" "str_int 2 = ''2''" "str_int 1000 = ''1000''" "str_int 1001 = ''1001''"
  by (simp_all add: str_int_def str_nat.simps digit_chars_def)

lemma seeded_eq:
  "seeded = \<lparr>FAILED_ATTEMPTS = (\<lambda>_. 0), BLOCKED_IPS = Map.empty, users = demo_users,
      documents = [], upload_folder = Map.empty, security_log = []\<rparr>"
  by (simp add: seeded_def seed_mock_user_def empty_state_def mock_users_def next_user_id_def
      demo_env_def demo_users_def)

lemma with_documents_eq:
  "with_documents =
     \<lparr>FAILED_ATTEMPTS = (\<lambda>_. 0), BLOCKED_IPS = Map.empty, users = demo_users,
      documents =
        [\<lparr>d_id = ''uuid-a'', d_user_id = 1, d_original_name = ''hw1.pdf'',
          d_stored_name = ''1_1000_hw1.pdf'', d_uploaded_at = 1000\<rparr>,
         \<lparr>d_id = ''uuid-b'', d_user_id = 2, d_original_name = ''notes.PDF'',
          d_stored_name = ''2_1001_notes.PDF'', d_uploaded_at = 1001\<rparr>],
      upload_folder = [''1_1000_hw1.pdf'' \<mapsto> ''%PDF-1.4 homework'',
                       ''2_1001_notes.PDF'' \<mapsto> ''%PDF-1.4 homework''],
      security_log = []\<rparr>"
  by (simp add: with_documents_def demo_defs upload_document_def validate_pdf_def
      endswith_def py_lower_def lower_char_def
      ensure_safe_filename_def py_int_def str_int_small Document_query_get_def
      seeded_eq demo_pdf_def demo_users_def)

lemma not_blocked_with_documents:
  "snd (is_ip_blocked t ip with_documents) = with_documents"
  by (simp add: is_ip_blocked_def with_documents_eq)

lemma authenticated_demo:
  "authenticated_as (demo_env 2000 uuid)
     (protected_request rt ''10.0.0.1'' (Bearer (demo_token 1 ''test@student.com'' 900)) f i)
     with_documents
     \<lparr>u_id = 1, u_email = ''test@student.com'', u_password_hash = ''hash:password123'',
       u_created_at = 0\<rparr>"
  by (simp add: authenticated_as_def with_documents_eq demo_defs demo_users_def)

lemma authenticated_demo_1:
  "authenticated_as (demo_env 2000 uuid)
     (protected_request rt ''10.0.0.1'' (Bearer (demo_token 1 ''test@student.com'' 900)) f i)
     with_documents demo_user_1"
  using authenticated_demo [of uuid rt f i] by (simp add: demo_user_1_def)

lemma after_ten_failures_eq:
  "after_ten_failures =
     \<lparr>FAILED_ATTEMPTS = (\<lambda>_. 0)(''10.0.0.9'' := 10),
      BLOCKED_IPS = [''10.0.0.9'' \<mapsto> 1060], users = demo_users, documents = [],
      upload_folder = Map.empty,
      security_log = [''IP blocked due to excessive failures: 10.0.0.9'']\<rparr>"
  by (simp add: after_ten_failures_def numeral_eq_Suc demo_defs seeded_eq demo_users_def)

lemma after_three_missing_tokens_eq:
  "after_three_missing_tokens =
     with_documents\<lparr>FAILED_ATTEMPTS := (\<lambda>_. 0)(''10.0.0.1'' := 3)\<rparr>"
  by (simp add: after_three_missing_tokens_def numeral_eq_Suc demo_defs with_documents_eq)

lemma after_login_past_block_eq:
  "after_login_past_block = after_ten_failures\<lparr>FAILED_ATTEMPTS := (\<lambda>_. 0)\<rparr>"
  by (simp add: after_login_past_block_def after_ten_failures_eq demo_defs demo_users_def
      fun_eq_iff)

subsection \<open>Login and the throttle\<close>

text \<open>
  Claim C1 says that a login from an address with 10 failures, inside its 60-second
  block, is answered 429 before any credential check. \<open>login\<close> never calls
  \<open>is_ip_blocked\<close>. Ten failed logins from 10.0.0.9 at time 1000 block the address until
  1060; one second later \<open>is_ip_blocked\<close> says the address is blocked, and still a login
  from it with the right password is answered 200 with a token, and one with a wrong
  password is answered 401 after the credentials were compared.
\<close>

theorem login_ignores_block:
  "FAILED_ATTEMPTS after_ten_failures ''10.0.0.9'' = 10
   \<and> BLOCKED_IPS after_ten_failures ''10.0.0.9'' = Some 1060
   \<and> fst (is_ip_blocked 1001 ''10.0.0.9'' after_ten_failures)
   \<and> fst (handle (demo_env 1001 [])
            (login_request ''10.0.0.9'' ''test@student.com'' ''password123'')
            after_ten_failures)
       = (LoginSuccessful 1 ''test@student.com''
            (demo_token 1 ''test@student.com'' 1001), 200)
   \<and> fst (handle (demo_env 1001 [])
            (login_request ''10.0.0.9'' ''test@student.com'' ''guess'')
            after_ten_failures)
       = (Error ''Invalid credentials'', 401)"
  by (simp add: after_ten_failures_eq demo_defs demo_users_def)

text \<open>No state and no request make \<open>login\<close> answer 429.\<close>

lemma login_never_429: "snd (fst (login e r st)) \<noteq> 429"
  by (simp add: login_def Let_def split: option.splits prod.splits)

subsection \<open>Resetting the failure counter\<close>

text \<open>
  Claim C2 says that a fully successful authentication through the gateway resets the
  failure counter of the address to zero. \<open>auth_required\<close> never writes the counter on
  its success path: after three requests without a token from 10.0.0.1 the counter is 3,
  and it is still 3, not 0, after a request from that address that the gateway
  authenticates and that is answered 200.
\<close>

theorem gateway_success_keeps_failure_counter:
  "FAILED_ATTEMPTS after_three_missing_tokens ''10.0.0.1'' = 3
   \<and> authenticated_as (demo_env 2000 [])
        (protected_request GetDocuments ''10.0.0.1''
           (Bearer (demo_token 1 ''test@student.com'' 900)) None None)
        after_three_missing_tokens demo_user_1
   \<and> snd (fst (handle (demo_env 2000 [])
        (protected_request GetDocuments ''10.0.0.1''
           (Bearer (demo_token 1 ''test@student.com'' 900)) None None)
        after_three_missing_tokens)) = 200
   \<and> FAILED_ATTEMPTS (snd (handle (demo_env 2000 [])
        (protected_request GetDocuments ''10.0.0.1''
           (Bearer (demo_token 1 ''test@student.com'' 900)) None None)
        after_three_missing_tokens)) ''10.0.0.1'' = 3
   \<and> FAILED_ATTEMPTS (snd (handle (demo_env 2000 [])
        (protected_request GetDocuments ''10.0.0.1''
           (Bearer (demo_token 1 ''test@student.com'' 900)) None None)
        after_three_missing_tokens)) ''10.0.0.1'' \<noteq> 0"
  by (simp add: after_three_missing_tokens_eq with_documents_eq demo_defs
      authenticated_as_def demo_users_def demo_user_1_def list_documents_def)

text \<open>
  Claim C2 as the code has it: the counter is reset where the credentials are checked. A
  successful login sets the failure counter of the requesting address to zero and leaves
  every block-until entry, an active one included, in place. A fully successful
  authentication through the gateway hands the wrapped view a state with the failure
  counters as they were; the address has no block entry then, an expired one having been
  removed by the throttle check.
\<close>

theorem counter_reset_only_by_login:
  "(authenticated_as e r st usr \<longrightarrow>
      auth_required fn e r st = fn usr e r (snd (is_ip_blocked (now e) (remote_addr r) st))
      \<and> FAILED_ATTEMPTS (snd (is_ip_blocked (now e) (remote_addr r) st)) = FAILED_ATTEMPTS st
      \<and> BLOCKED_IPS (snd (is_ip_blocked (now e) (remote_addr r) st)) (remote_addr r) = None)
   \<and> (snd (fst (login e r st)) = 200 \<longrightarrow>
        FAILED_ATTEMPTS (snd (login e r st)) = (FAILED_ATTEMPTS st)(remote_addr r := 0)
        \<and> BLOCKED_IPS (snd (login e r st)) = BLOCKED_IPS st)"
proof -
  have a: "auth_required fn e r st = fn usr e r (snd (is_ip_blocked (now e) (remote_addr r) st))
      \<and> FAILED_ATTEMPTS (snd (is_ip_blocked (now e) (remote_addr r) st)) = FAILED_ATTEMPTS st
      \<and> BLOCKED_IPS (snd (is_ip_blocked (now e) (remote_addr r) st)) (remote_addr r) = None"
    if "authenticated_as e r st usr"
    using that auth_required_authenticated [OF that, of fn]
    by (simp add: is_ip_blocked_frame is_ip_blocked_clears authenticated_as_def)
  have b: "FAILED_ATTEMPTS (snd (login e r st)) = (FAILED_ATTEMPTS st)(remote_addr r := 0)
        \<and> BLOCKED_IPS (snd (login e r st)) = BLOCKED_IPS st"
    if "snd (fst (login e r st)) = 200"
    using that
    by (auto simp: login_def Let_def split: option.splits prod.splits if_splits)
  show ?thesis using a b by blast
qed

theorem counter_reset_only_by_login_witness:
  "authenticated_as (demo_env 2000 [])
     (protected_request GetDocuments ''10.0.0.1''
        (Bearer (demo_token 1 ''test@student.com'' 900)) None None)
     with_documents demo_user_1
   \<and> auth_required list_documents (demo_env 2000 [])
       (protected_request GetDocuments ''10.0.0.1''
          (Bearer (demo_token 1 ''test@student.com'' 900)) None None) with_documents
     = list_documents demo_user_1 (demo_env 2000 [])
         (protected_request GetDocuments ''10.0.0.1''
            (Bearer (demo_token 1 ''test@student.com'' 900)) None None) with_documents
   \<and> snd (fst (login (demo_env 1001 [])
         (login_request ''10.0.0.9'' ''test@student.com'' ''password123'')
         after_ten_failures)) = 200
   \<and> FAILED_ATTEMPTS after_ten_failures ''10.0.0.9'' = 10
   \<and> FAILED_ATTEMPTS (snd (login (demo_env 1001 [])
         (login_request ''10.0.0.9'' ''test@student.com'' ''password123'')
         after_ten_failures)) ''10.0.0.9'' = 0
   \<and> BLOCKED_IPS (snd (login (demo_env 1001 [])
         (login_request ''10.0.0.9'' ''test@student.com'' ''password123'')
         after_ten_failures)) ''10.0.0.9'' = Some 1060"
proof -
  let ?rq = "protected_request GetDocuments ''10.0.0.1''
        (Bearer (demo_token 1 ''test@student.com'' 900)) None None"
  let ?lg = "login_request ''10.0.0.9'' ''test@student.com'' ''password123''"
  have s: "snd (fst (login (demo_env 1001 []) ?lg after_ten_failures)) = 200"
    by (simp add: after_ten_failures_eq demo_defs demo_users_def)
  have f: "FAILED_ATTEMPTS after_ten_failures ''10.0.0.9'' = 10"
    "BLOCKED_IPS after_ten_failures ''10.0.0.9'' = Some 1060"
    "remote_addr ?lg = ''10.0.0.9''"
    by (simp_all add: after_ten_failures_eq login_request_def)
  from counter_reset_only_by_login [of "demo_env 2000 []" ?rq with_documents demo_user_1
      list_documents]
    counter_reset_only_by_login [of "demo_env 1001 []" ?lg after_ten_failures]
    authenticated_demo_1 [of "[]" GetDocuments None None] s f
  show ?thesis by (simp add: not_blocked_with_documents)
qed

subsection \<open>Download\<close>

text \<open>
  Claim C3: a download request of an authenticated requester \<open>B\<close> that names a document id
  (a \<^verbatim>\<open>file_id\<close> that is present and not empty; without one the answer is 400).
  If the registry holds a document under that id whose owner is not \<open>B\<close>, the answer is
  403, the security log receives a record naming the requester, the document id and the
  client address, and \<open>register_failed_attempt\<close> runs on the client address, so its
  failure counter grows by one. If the registry holds no document under that id, the
  answer is 404 and nothing is recorded.
\<close>

theorem download_foreign_forbidden_missing_not_found:
  assumes "authenticated_as e r st B" and "truthy (args_file_id r) = Some doc_id"
  shows "(\<forall>doc. Document_query_get (documents st) doc_id = Some doc \<and> d_user_id doc \<noteq> u_id B \<longrightarrow>
            auth_required download_document e r st =
              ((Error ''Not authorized to download this file'', 403),
               register_failed_attempt (now e) (remote_addr r)
                 ((snd (is_ip_blocked (now e) (remote_addr r) st))
                    \<lparr>security_log := security_log st @
                       [''Unauthorized download attempt: user='' @ str_int (u_id B)
                        @ '' tried file='' @ doc_id @ '' from IP='' @ remote_addr r]\<rparr>))
            \<and> (''Unauthorized download attempt: user='' @ str_int (u_id B)
                 @ '' tried file='' @ doc_id @ '' from IP='' @ remote_addr r)
                \<in> set (security_log (snd (auth_required download_document e r st)))
            \<and> FAILED_ATTEMPTS (snd (auth_required download_document e r st)) (remote_addr r)
                = FAILED_ATTEMPTS st (remote_addr r) + 1)
         \<and> (Document_query_get (documents st) doc_id = None \<longrightarrow>
              auth_required download_document e r st =
                ((Error ''File not found'', 404),
                 snd (is_ip_blocked (now e) (remote_addr r) st)))"
proof -
  let ?st1 = "snd (is_ip_blocked (now e) (remote_addr r) st)"
  let ?audit = "''Unauthorized download attempt: user='' @ str_int (u_id B)
                 @ '' tried file='' @ doc_id @ '' from IP='' @ remote_addr r"
  have run: "auth_required download_document e r st = download_document B e r ?st1"
    by (rule auth_required_authenticated [OF assms(1)])
  have forb: "auth_required download_document e r st =
      ((Error ''Not authorized to download this file'', 403),
       register_failed_attempt (now e) (remote_addr r)
         (?st1\<lparr>security_log := security_log st @ [?audit]\<rparr>))"
    if "Document_query_get (documents st) doc_id = Some doc" "d_user_id doc \<noteq> u_id B" for doc
    using that assms(2) by (simp add: run download_document_def Let_def is_ip_blocked_frame)
  have logged: "?audit \<in> set (security_log (register_failed_attempt (now e) (remote_addr r)
         (?st1\<lparr>security_log := security_log st @ [?audit]\<rparr>)))"
    using register_failed_attempt_log
      [of "?st1\<lparr>security_log := security_log st @ [?audit]\<rparr>" "now e" "remote_addr r"]
    by auto
  have counted: "FAILED_ATTEMPTS (register_failed_attempt (now e) (remote_addr r)
         (?st1\<lparr>security_log := security_log st @ [?audit]\<rparr>)) (remote_addr r)
       = FAILED_ATTEMPTS st (remote_addr r) + 1"
    by (simp add: register_failed_attempt_counter is_ip_blocked_frame)
  have missing: "auth_required download_document e r st = ((Error ''File not found'', 404), ?st1)"
    if "Document_query_get (documents st) doc_id = None"
    using that assms(2) by (simp add: run download_document_def Let_def is_ip_blocked_frame)
  show ?thesis using forb logged counted missing by simp
qed

theorem download_foreign_forbidden_missing_not_found_witness:
  "authenticated_as (demo_env 2000 [])
     (protected_request GetDownload ''10.0.0.1''
        (Bearer (demo_token 1 ''test@student.com'' 900)) None (Some ''uuid-b''))
     with_documents demo_user_1
   \<and> Document_query_get (documents with_documents) ''uuid-b''
       = Some \<lparr>d_id = ''uuid-b'', d_user_id = 2, d_original_name = ''notes.PDF'',
                d_stored_name = ''2_1001_notes.PDF'', d_uploaded_at = 1001\<rparr>
   \<and> fst (auth_required download_document (demo_env 2000 [])
       (protected_request GetDownload ''10.0.0.1''
          (Bearer (demo_token 1 ''test@student.com'' 900)) None (Some ''uuid-b''))
       with_documents) = (Error ''Not authorized to download this file'', 403)
   \<and> security_log (snd (auth_required download_document (demo_env 2000 [])
       (protected_request GetDownload ''10.0.0.1''
          (Bearer (demo_token 1 ''test@student.com'' 900)) None (Some ''uuid-b''))
       with_documents))
      = [''Unauthorized download attempt: user=1 tried file=uuid-b from IP=10.0.0.1'']
   \<and> FAILED_ATTEMPTS (snd (auth_required download_document (demo_env 2000 [])
       (protected_request GetDownload ''10.0.0.1''
          (Bearer (demo_token 1 ''test@student.com'' 900)) None (Some ''uuid-b''))
       with_documents)) ''10.0.0.1'' = 1
   \<and> Document_query_get (documents with_documents) ''uuid-z'' = None
   \<and> fst (auth_required download_document (demo_env 2000 [])
       (protected_request GetDownload ''10.0.0.1''
          (Bearer (demo_token 1 ''test@student.com'' 900)) None (Some ''uuid-z''))
       with_documents) = (Error ''File not found'', 404)"
proof -
  have t: "truthy (args_file_id (protected_request GetDownload ''10.0.0.1''
        (Bearer (demo_token 1 ''test@student.com'' 900)) None (Some i))) = Some i"
    if "i \<noteq> []" for i
    using that by (simp add: protected_request_def truthy_def)
  have b: "Document_query_get (documents with_documents) ''uuid-b''
       = Some \<lparr>d_id = ''uuid-b'', d_user_id = 2, d_original_name = ''notes.PDF'',
                d_stored_name = ''2_1001_notes.PDF'', d_uploaded_at = 1001\<rparr>"
    by (simp add: with_documents_eq Document_query_get_def)
  have z: "Document_query_get (documents with_documents) ''uuid-z'' = None"
    by (simp add: with_documents_eq Document_query_get_def)
  show ?thesis
    using download_foreign_forbidden_missing_not_found
        [OF authenticated_demo_1 [of "[]" GetDownload None "Some ''uuid-b''"] t [of "''uuid-b''"]]
      download_foreign_forbidden_missing_not_found
        [OF authenticated_demo_1 [of "[]" GetDownload None "Some ''uuid-z''"] t [of "''uuid-z''"]]
      authenticated_demo_1 [of "[]" GetDownload None "Some ''uuid-b''"] b z
    by (simp add: demo_user_1_def register_failed_attempt_def Let_def BLOCK_THRESHOLD_def
        not_blocked_with_documents str_int_small)
      (simp add: with_documents_eq protected_request_def)
qed

subsection \<open>Listing\<close>

text \<open>
  Claim C4: for a requester the gateway authenticates as \<open>A\<close>, the list operation answers
  with exactly the documents of the registry whose owner is \<open>A\<close>, in registry order, and
  changes nothing but an expired block entry. No document of another owner is among the
  rows the query yields; and since document ids are a primary key, the serialisation of
  another owner's document is not in the answer either.
\<close>

theorem list_documents_only_own:
  assumes "authenticated_as e r st A"
  shows "auth_required list_documents e r st =
           ((DocumentList (map serialize_document
               (filter (\<lambda>d. d_user_id d = u_id A) (documents st))), 200),
            snd (is_ip_blocked (now e) (remote_addr r) st))
         \<and> set (Document_query_filter_by_user_id_all (documents st) (u_id A))
             = {d \<in> set (documents st). d_user_id d = u_id A}
         \<and> (\<forall>d \<in> set (documents st). d_user_id d \<noteq> u_id A \<longrightarrow>
              d \<notin> set (Document_query_filter_by_user_id_all (documents st) (u_id A)))
         \<and> (distinct (map d_id (documents st)) \<longrightarrow>
             (\<forall>d \<in> set (documents st). d_user_id d \<noteq> u_id A \<longrightarrow>
                serialize_document d \<notin> set (map serialize_document
                  (Document_query_filter_by_user_id_all (documents st) (u_id A)))))"
proof -
  have a: "auth_required list_documents e r st =
           ((DocumentList (map serialize_document
               (filter (\<lambda>d. d_user_id d = u_id A) (documents st))), 200),
            snd (is_ip_blocked (now e) (remote_addr r) st))"
    by (simp add: auth_required_authenticated [OF assms] list_documents_def
        Document_query_filter_by_user_id_all_def is_ip_blocked_frame)
  have b: "set (Document_query_filter_by_user_id_all (documents st) (u_id A))
             = {d \<in> set (documents st). d_user_id d = u_id A}"
    by (auto simp: Document_query_filter_by_user_id_all_def)
  have c: "serialize_document d \<notin> set (map serialize_document
                  (Document_query_filter_by_user_id_all (documents st) (u_id A)))"
    if dis: "distinct (map d_id (documents st))" and d: "d \<in> set (documents st)"
      and o: "d_user_id d \<noteq> u_id A" for d
  proof
    assume "serialize_document d \<in> set (map serialize_document
                  (Document_query_filter_by_user_id_all (documents st) (u_id A)))"
    then obtain d' where d': "d' \<in> set (documents st)" "d_user_id d' = u_id A"
        "serialize_document d' = serialize_document d"
      by (auto simp: Document_query_filter_by_user_id_all_def)
    from d'(3) have "d_id d' = d_id d" by (simp add: serialize_document_def)
    with dis d d'(1) have "d' = d" by (meson distinct_map inj_onD)
    with d'(2) o show False by simp
  qed
  show ?thesis using a b c by blast
qed

theorem list_documents_only_own_witness:
  "authenticated_as (demo_env 2000 [])
     (protected_request GetDocuments ''10.0.0.1''
        (Bearer (demo_token 1 ''test@student.com'' 900)) None None)
     with_documents
     \<lparr>u_id = 1, u_email = ''test@student.com'', u_password_hash = ''hash:password123'',
       u_created_at = 0\<rparr>
   \<and> fst (auth_required list_documents (demo_env 2000 [])
       (protected_request GetDocuments ''10.0.0.1''
          (Bearer (demo_token 1 ''test@student.com'' 900)) None None)
       with_documents)
     = (DocumentList
          [\<lparr>s_id = ''uuid-a'', s_original_name = ''hw1.pdf'',
            s_stored_name = ''1_1000_hw1.pdf'', s_uploaded_at = 1000\<rparr>], 200)"
  using list_documents_only_own [OF authenticated_demo [of "[]" GetDocuments None None]]
    authenticated_demo [of "[]" GetDocuments None None]
  by (simp add: with_documents_eq serialize_document_def)

subsection \<open>Ownership of uploaded documents\<close>

text \<open>
  Claim C5: when an upload through the gateway succeeds, the registry gains exactly one
  row, and the owner of that row is the id of the stored user the gateway resolved from
  the subject of the verified token. The owner does not depend on anything else the
  client sends: two successful uploads with the same \<^verbatim>\<open>Authorization\<close> header, whatever
  their file, filename, other fields and address are, create rows with the same owner.
  And no operation of the application changes a row once it exists: after any request
  the registry is the old registry followed by the new rows.
\<close>

theorem upload_owner_is_authenticated_user:
  "(snd (fst (auth_required upload_document e r st)) = 200 \<longrightarrow>
      (\<exists>tok pl usr doc.
          authorization r = Bearer tok
          \<and> jwt_decode tok (JWT_SECRET_KEY e) (now e) = Inr pl
          \<and> User_query_get (users st) (p_sub pl) = Some usr
          \<and> p_sub pl = Some (u_id usr)
          \<and> documents (snd (auth_required upload_document e r st)) = documents st @ [doc]
          \<and> d_user_id doc = u_id usr))
   \<and> (\<forall>r'. authorization r' = authorization r
          \<and> snd (fst (auth_required upload_document e r st)) = 200
          \<and> snd (fst (auth_required upload_document e r' st)) = 200 \<longrightarrow>
          d_user_id (last (documents (snd (auth_required upload_document e r' st))))
            = d_user_id (last (documents (snd (auth_required upload_document e r st)))))
   \<and> (\<exists>new. documents (snd (handle e r st)) = documents st @ new)"
proof -
  have ok: "\<exists>tok pl usr doc.
          authorization r = Bearer tok
          \<and> jwt_decode tok (JWT_SECRET_KEY e) (now e) = Inr pl
          \<and> User_query_get (users st) (p_sub pl) = Some usr
          \<and> p_sub pl = Some (u_id usr)
          \<and> documents (snd (auth_required upload_document e r st)) = documents st @ [doc]
          \<and> d_user_id doc = u_id usr"
    if s: "snd (fst (auth_required upload_document e r st)) = 200" for r
  proof -
    from auth_required_cases [of e r st upload_document] s
    obtain usr where a: "authenticated_as e r st usr"
      and u: "auth_required upload_document e r st
               = upload_document usr e r (snd (is_ip_blocked (now e) (remote_addr r) st))"
      by auto
    from a obtain tok pl where t: "authorization r = Bearer tok"
      "jwt_decode tok (JWT_SECRET_KEY e) (now e) = Inr pl"
      "User_query_get (users st) (p_sub pl) = Some usr"
      by (auto simp: authenticated_as_def split: authorization.splits sum.splits)
    from upload_document_200 [of usr e r "snd (is_ip_blocked (now e) (remote_addr r) st)"] s u
    obtain doc where "documents (snd (auth_required upload_document e r st))
        = documents st @ [doc]" "d_user_id doc = u_id usr"
      by (auto simp: is_ip_blocked_frame)
    with t User_query_get_id [OF t(3)] show ?thesis by blast
  qed
  have same: "d_user_id (last (documents (snd (auth_required upload_document e r' st))))
            = d_user_id (last (documents (snd (auth_required upload_document e r st))))"
    if "authorization r' = authorization r"
      "snd (fst (auth_required upload_document e r st)) = 200"
      "snd (fst (auth_required upload_document e r' st)) = 200" for r'
    using ok [OF that(2)] ok [OF that(3)] that(1) by auto
  show ?thesis using ok [of r] same handle_documents [of e r st] by blast
qed

theorem upload_owner_is_authenticated_user_witness:
  "snd (fst (auth_required upload_document (demo_env 2000 ''uuid-c'')
       (protected_request PostUpload ''10.0.0.1''
          (Bearer (demo_token 1 ''test@student.com'' 900))
          (Some (demo_pdf ''2_essay.pdf'')) None)
       with_documents)) = 200
   \<and> (\<exists>tok pl usr doc.
          Bearer (demo_token 1 ''test@student.com'' 900) = Bearer tok
          \<and> jwt_decode tok ''super-secret-demo-key'' 2000 = Inr pl
          \<and> User_query_get (users with_documents) (p_sub pl) = Some usr
          \<and> p_sub pl = Some (u_id usr)
          \<and> documents (snd (auth_required upload_document (demo_env 2000 ''uuid-c'')
               (protected_request PostUpload ''10.0.0.1''
                  (Bearer (demo_token 1 ''test@student.com'' 900))
                  (Some (demo_pdf ''2_essay.pdf'')) None)
               with_documents)) = documents with_documents @ [doc]
          \<and> d_user_id doc = u_id usr)"
proof -
  have s: "snd (fst (auth_required upload_document (demo_env 2000 ''uuid-c'')
       (protected_request PostUpload ''10.0.0.1''
          (Bearer (demo_token 1 ''test@student.com'' 900))
          (Some (demo_pdf ''2_essay.pdf'')) None)
       with_documents)) = 200"
    by (simp add: auth_required_authenticated [OF authenticated_demo_1]
        not_blocked_with_documents)
      (simp add: upload_document_def protected_request_def validate_pdf_def demo_pdf_def
        endswith_def py_lower_def lower_char_def ensure_safe_filename_def demo_env_def
        py_int_def str_int_def str_nat.simps digit_chars_def demo_user_1_def
        Document_query_get_def with_documents_eq Let_def)
  have a: "authorization (protected_request PostUpload ''10.0.0.1''
          (Bearer (demo_token 1 ''test@student.com'' 900))
          (Some (demo_pdf ''2_essay.pdf'')) None)
        = Bearer (demo_token 1 ''test@student.com'' 900)"
    "JWT_SECRET_KEY (demo_env 2000 ''uuid-c'') = ''super-secret-demo-key''"
    "now (demo_env 2000 ''uuid-c'') = 2000"
    by (simp_all add: protected_request_def demo_env_def)
  from upload_owner_is_authenticated_user [of "demo_env 2000 ''uuid-c''"
      "protected_request PostUpload ''10.0.0.1''
          (Bearer (demo_token 1 ''test@student.com'' 900))
          (Some (demo_pdf ''2_essay.pdf'')) None" with_documents] s
  show ?thesis unfolding a by blast
qed

subsection \<open>Upload validation\<close>

lemma lower_char_eq:
  "lower_char x = CHR ''.'' \<longleftrightarrow> x = CHR ''.''"
  "lower_char x = CHR ''p'' \<longleftrightarrow> x \<in> {CHR ''p'', CHR ''P''}"
  "lower_char x = CHR ''d'' \<longleftrightarrow> x \<in> {CHR ''d'', CHR ''D''}"
  "lower_char x = CHR ''f'' \<longleftrightarrow> x \<in> {CHR ''f'', CHR ''F''}"
  by (auto simp: lower_char_def split: if_splits)

text \<open>
  What the extension test of \<open>validate_pdf\<close> accepts: a name that ends in a dot followed
  by the letters p, d, f, each in either case.
\<close>

lemma endswith_pdf_iff:
  "endswith (py_lower s) ''.pdf'' \<longleftrightarrow>
     (\<exists>stem a b c. s = stem @ [CHR ''.'', a, b, c]
        \<and> a \<in> {CHR ''p'', CHR ''P''} \<and> b \<in> {CHR ''d'', CHR ''D''}
        \<and> c \<in> {CHR ''f'', CHR ''F''})"
proof -
  have s4: "length s \<ge> 4 \<Longrightarrow> \<exists>stem w a b c. s = stem @ [w, a, b, c]" for s :: string
  proof -
    assume l: "length s \<ge> 4"
    define t where "t = drop (length s - 4) s"
    have "length t = 4" using l by (simp add: t_def)
    then obtain w a b c where "t = [w, a, b, c]"
      by (auto simp: length_Suc_conv numeral_eq_Suc)
    then have "s = take (length s - 4) s @ [w, a, b, c]"
      unfolding t_def by (metis append_take_drop_id)
    then show ?thesis by blast
  qed
  show ?thesis
  proof
    assume a: "endswith (py_lower s) ''.pdf''"
    then have "length s \<ge> 4" by (simp add: endswith_def py_lower_def)
    from s4 [OF this] obtain stem w a b c where s: "s = stem @ [w, a, b, c]" by blast
    from a s have "lower_char w = CHR ''.''" "lower_char a = CHR ''p''"
      "lower_char b = CHR ''d''" "lower_char c = CHR ''f''"
      by (simp_all add: endswith_def py_lower_def)
    then have "w = CHR ''.''" "a \<in> {CHR ''p'', CHR ''P''}" "b \<in> {CHR ''d'', CHR ''D''}"
      "c \<in> {CHR ''f'', CHR ''F''}"
      by (simp_all add: lower_char_eq)
    with s show "\<exists>stem a b c. s = stem @ [CHR ''.'', a, b, c]
        \<and> a \<in> {CHR ''p'', CHR ''P''} \<and> b \<in> {CHR ''d'', CHR ''D''}
        \<and> c \<in> {CHR ''f'', CHR ''F''}" by blast
  next
    assume "\<exists>stem a b c. s = stem @ [CHR ''.'', a, b, c]
        \<and> a \<in> {CHR ''p'', CHR ''P''} \<and> b \<in> {CHR ''d'', CHR ''D''}
        \<and> c \<in> {CHR ''f'', CHR ''F''}"
    then show "endswith (py_lower s) ''.pdf''"
      by (auto simp: endswith_def py_lower_def lower_char_def)
  qed
qed

text \<open>
  Claim C6: on an upload whose stream stands at its start, \<open>validate_pdf\<close> accepts exactly
  when all three checks hold: the declared MIME type is application/pdf, the first 4 bytes
  of the content are the PDF signature, and the lower-cased filename ends in .pdf. In
  particular a file whose first 4 bytes are not the signature is rejected whatever its
  declared type and name are. After a check that accepts, the stream is back at position 0
  and is otherwise the file that came in.
\<close>

theorem validate_pdf_three_checks:
  "(position f = 0 \<longrightarrow>
      (fst (validate_pdf f) \<longleftrightarrow>
         mimetype f = ''application/pdf'' \<and> take 4 (content f) = ''%PDF''
         \<and> endswith (py_lower (filename f)) ''.pdf''))
   \<and> (position f = 0 \<and> take 4 (content f) \<noteq> ''%PDF'' \<longrightarrow> \<not> fst (validate_pdf f))
   \<and> (fst (validate_pdf f) \<longrightarrow>
        position (snd (validate_pdf f)) = 0
        \<and> snd (validate_pdf f) = f\<lparr>position := 0\<rparr>)"
  by (auto simp: validate_pdf_def Let_def)

theorem validate_pdf_three_checks_witness:
  "position (demo_pdf ''notes.PDF'') = 0
   \<and> fst (validate_pdf (demo_pdf ''notes.PDF''))
   \<and> take 4 (content (demo_pdf ''notes.PDF'')) = ''%PDF''
   \<and> position (snd (validate_pdf (demo_pdf ''notes.PDF''))) = 0
   \<and> \<not> fst (validate_pdf ((demo_pdf ''notes.PDF'')\<lparr>content := ''MZ %PDF''\<rparr>))"
  using validate_pdf_three_checks [of "demo_pdf ''notes.PDF''"]
    validate_pdf_three_checks [of "(demo_pdf ''notes.PDF'')\<lparr>content := ''MZ %PDF''\<rparr>"]
  by (simp add: demo_pdf_def endswith_def py_lower_def lower_char_def)

subsection \<open>Token lifetime\<close>

lemma login_token_payload:
  assumes "fst (login e r st) = (LoginSuccessful uid em tok, 200)"
  shows "tok = jwt_encode \<lparr>p_sub = Some uid, p_email = Some em, p_iat = Some \<lfloor>now e\<rfloor>,
                            p_exp = Some (\<lfloor>now2 e\<rfloor> + 3600)\<rparr> (JWT_SECRET_KEY e)"
  using assms
  by (auto simp: login_def Let_def JWT_EXPIRATION_SECONDS_def
      split: option.splits prod.splits if_splits)

text \<open>
  Claim C7 says that every token issued at login expires exactly 3600 seconds after its
  issued-at, and that verifying it more than 3600 seconds after its issuance fails with
  \<^verbatim>\<open>ExpiredSignatureError\<close>. \<open>login\<close> reads the clock once for the issued-at and once
  more for the expiry, and the token keeps the whole seconds of each read. A login that
  reads 1000.9999995 and then 1001.0000002 issues a token with issued-at 1000 and expiry
  4601, which is the issued-at plus 3601. At 4600.9999999, more than 3600 seconds after
  the login read the clock for the issued-at, the token still decodes to its payload and
  the gateway serves the request with status 200.
\<close>

theorem login_two_reads_token_outlives_3600:
  "fst (login demo_env_two_reads
          (login_request ''10.0.0.1'' ''test@student.com'' ''password123'') seeded)
     = (LoginSuccessful 1 ''test@student.com'' two_reads_token, 200)
   \<and> two_reads_token
     = jwt_encode \<lparr>p_sub = Some 1, p_email = Some ''test@student.com'',
                    p_iat = Some 1000, p_exp = Some (1000 + 3601)\<rparr>
         (JWT_SECRET_KEY demo_env_two_reads)
   \<and> now demo_env_two_reads + 3600 < (46009999999 / 10000000 :: real)
   \<and> jwt_decode two_reads_token (JWT_SECRET_KEY demo_env_two_reads)
        (46009999999 / 10000000)
     = Inr \<lparr>p_sub = Some 1, p_email = Some ''test@student.com'', p_iat = Some 1000,
            p_exp = Some 4601\<rparr>
   \<and> fst (auth_required list_documents (demo_env (46009999999 / 10000000) [])
            (protected_request GetDocuments ''10.0.0.1'' (Bearer two_reads_token) None None)
            with_documents)
     = (DocumentList
          [\<lparr>s_id = ''uuid-a'', s_original_name = ''hw1.pdf'',
            s_stored_name = ''1_1000_hw1.pdf'', s_uploaded_at = 1000\<rparr>], 200)"
  by (simp add: demo_env_two_reads_def two_reads_token_def demo_defs with_documents_eq
      demo_users_def list_documents_def Document_query_filter_by_user_id_all_def
      serialize_document_def)

text \<open>
  When the two reads of a login fall into the same whole second, the token expires
  exactly 3600 seconds after its issued-at and no longer decodes more than 3600 seconds
  after the login.
\<close>

lemma login_token_same_second:
  assumes "fst (login e r st) = (LoginSuccessful uid em tok, 200)"
    and "\<lfloor>now2 e\<rfloor> = \<lfloor>now e\<rfloor>"
  shows "\<exists>pl i. tok = jwt_encode pl (JWT_SECRET_KEY e)
           \<and> p_iat pl = Some i \<and> p_exp pl = Some (i + 3600)
           \<and> (\<forall>t. now e + 3600 < t \<longrightarrow>
                 jwt_decode tok (JWT_SECRET_KEY e) t = Inl ExpiredSignatureError)"
proof -
  define pl where "pl = \<lparr>p_sub = Some uid, p_email = Some em, p_iat = Some \<lfloor>now e\<rfloor>,
                           p_exp = Some (\<lfloor>now e\<rfloor> + 3600)\<rparr>"
  have tok: "tok = jwt_encode pl (JWT_SECRET_KEY e)"
    using login_token_payload [OF assms(1)] assms(2) by (simp add: pl_def)
  have "jwt_decode tok (JWT_SECRET_KEY e) t = Inl ExpiredSignatureError"
    if "now e + 3600 < t" for t
  proof -
    have "of_int \<lfloor>now e\<rfloor> \<le> now e" by simp
    with that have "\<not> t < of_int \<lfloor>now e\<rfloor>" "of_int (\<lfloor>now e\<rfloor> + 3600) \<le> t"
      by linarith+
    then show ?thesis by (simp add: tok jwt_encode_def jwt_decode_def pl_def)
  qed
  with tok show ?thesis
    by (intro exI [of _ pl] exI [of _ "\<lfloor>now e\<rfloor>"]) (simp add: pl_def)
qed

text \<open>
  Whatever the two reads are, with the clock not running backwards between them, the
  token no longer decodes more than 3600 seconds after the second read.
\<close>

lemma login_token_expired_after_second_read:
  assumes "fst (login e r st) = (LoginSuccessful uid em tok, 200)"
    and "now e \<le> now2 e" and "now2 e + 3600 < t"
  shows "jwt_decode tok (JWT_SECRET_KEY e) t = Inl ExpiredSignatureError"
proof -
  have "of_int \<lfloor>now e\<rfloor> \<le> now e" "of_int \<lfloor>now2 e\<rfloor> \<le> now2 e" by simp_all
  with assms(2,3) have "\<not> t < of_int \<lfloor>now e\<rfloor>" "of_int (\<lfloor>now2 e\<rfloor> + 3600) \<le> t"
    by linarith+
  then show ?thesis
    by (simp add: login_token_payload [OF assms(1)] jwt_encode_def jwt_decode_def)
qed

subsection \<open>Expired and invalid tokens\<close>

text \<open>
  Claim C8 says that an expired token and an invalid token give the client the same
  response. They do not: with a token that expired long ago the answer carries the
  message \<^verbatim>\<open>Token expired\<close>, with text that is no token it carries
  \<^verbatim>\<open>Invalid token\<close>, so the two responses differ although both have status 401.
\<close>

theorem expired_and_invalid_tokens_answered_differently:
  "fst (auth_required list_documents (demo_env 5000 [])
          (protected_request GetDocuments ''10.0.0.1''
             (Bearer (demo_token 1 ''test@student.com'' 900)) None None)
          with_documents)
     = (Error ''Token expired'', 401)
   \<and> fst (auth_required list_documents (demo_env 5000 [])
          (protected_request GetDocuments ''10.0.0.1''
             (Bearer (NotJwt ''not.a.token'')) None None)
          with_documents)
     = (Error ''Invalid token'', 401)
   \<and> fst (auth_required list_documents (demo_env 5000 [])
          (protected_request GetDocuments ''10.0.0.1''
             (Bearer (demo_token 1 ''test@student.com'' 900)) None None)
          with_documents)
     \<noteq> fst (auth_required list_documents (demo_env 5000 [])
          (protected_request GetDocuments ''10.0.0.1''
             (Bearer (NotJwt ''not.a.token'')) None None)
          with_documents)"
  by (simp add: demo_defs with_documents_eq)

text \<open>
  Claim C8 as the code has it: for a request the throttle lets through, an expired token
  and a structurally or cryptographically invalid token are both answered with status
  401, and both record one failure for the client address and change nothing else; the
  message of the answer names the case, \<^verbatim>\<open>Token expired\<close> or \<^verbatim>\<open>Invalid token\<close>.
\<close>

theorem expired_and_invalid_tokens_same_status:
  assumes "\<not> fst (is_ip_blocked (now e) (remote_addr r) st)"
    and "authorization r = Bearer tok"
    and "jwt_decode tok (JWT_SECRET_KEY e) (now e) = Inl err"
  shows "auth_required fn e r st =
           ((Error (case err of ExpiredSignatureError \<Rightarrow> ''Token expired''
                              | InvalidTokenError \<Rightarrow> ''Invalid token''), 401),
            register_failed_attempt (now e) (remote_addr r)
              (snd (is_ip_blocked (now e) (remote_addr r) st)))"
  using assms
  by (simp add: auth_required_def Let_def case_prod_unfold split: jwt_error.splits)

theorem expired_and_invalid_tokens_same_status_witness:
  "\<not> fst (is_ip_blocked 5000 ''10.0.0.1'' with_documents)
   \<and> jwt_decode (demo_token 1 ''test@student.com'' 900) ''super-secret-demo-key'' 5000
       = Inl ExpiredSignatureError
   \<and> jwt_decode (Jwt ''another-key'' \<lparr>p_sub = Some 2, p_email = None, p_iat = None,
                     p_exp = None\<rparr>) ''super-secret-demo-key'' 5000
       = Inl InvalidTokenError
   \<and> auth_required download_document (demo_env 5000 [])
       (protected_request GetDownload ''10.0.0.1''
          (Bearer (demo_token 1 ''test@student.com'' 900)) None (Some ''uuid-a''))
       with_documents
     = ((Error ''Token expired'', 401),
        register_failed_attempt 5000 ''10.0.0.1'' with_documents)
   \<and> auth_required download_document (demo_env 5000 [])
       (protected_request GetDownload ''10.0.0.1''
          (Bearer (Jwt ''another-key'' \<lparr>p_sub = Some 2, p_email = None, p_iat = None,
                     p_exp = None\<rparr>)) None (Some ''uuid-a''))
       with_documents
     = ((Error ''Invalid token'', 401),
        register_failed_attempt 5000 ''10.0.0.1'' with_documents)"
proof -
  let ?bad = "Jwt ''another-key'' \<lparr>p_sub = Some 2, p_email = None, p_iat = None,
                     p_exp = None\<rparr>"
  let ?old = "demo_token 1 ''test@student.com'' 900"
  have b: "\<not> fst (is_ip_blocked 5000 ''10.0.0.1'' with_documents)"
    by (simp add: is_ip_blocked_def with_documents_eq)
  have x: "jwt_decode ?old ''super-secret-demo-key'' 5000 = Inl ExpiredSignatureError"
    by (simp add: jwt_decode_def demo_token_def)
  have i: "jwt_decode ?bad ''super-secret-demo-key'' 5000 = Inl InvalidTokenError"
    by (simp add: jwt_decode_def)
  have 1: "auth_required download_document (demo_env 5000 [])
       (protected_request GetDownload ''10.0.0.1'' (Bearer ?old) None (Some ''uuid-a''))
       with_documents
     = ((Error ''Token expired'', 401),
        register_failed_attempt 5000 ''10.0.0.1'' with_documents)"
    using expired_and_invalid_tokens_same_status [of "demo_env 5000 []"
        "protected_request GetDownload ''10.0.0.1'' (Bearer ?old) None (Some ''uuid-a'')"
        with_documents ?old ExpiredSignatureError download_document] b x
    by (simp add: demo_env_def protected_request_def not_blocked_with_documents)
  have 2: "auth_required download_document (demo_env 5000 [])
       (protected_request GetDownload ''10.0.0.1'' (Bearer ?bad) None (Some ''uuid-a''))
       with_documents
     = ((Error ''Invalid token'', 401),
        register_failed_attempt 5000 ''10.0.0.1'' with_documents)"
    using expired_and_invalid_tokens_same_status [of "demo_env 5000 []"
        "protected_request GetDownload ''10.0.0.1'' (Bearer ?bad) None (Some ''uuid-a'')"
        with_documents ?bad InvalidTokenError download_document] b i
    by (simp add: demo_env_def protected_request_def not_blocked_with_documents)
  show ?thesis using b x i 1 2 by simp
qed

subsection \<open>The counter across a block\<close>

text \<open>
  Claim C9 says that any address whose block window has expired is blocked again by a
  single further failure. A successful login resets the counter: the block of 10.0.0.9
  runs out at 1060, at 1061 the address logs in with the right password and its counter
  is 0, while the stale block entry still reads 1060. At 1062 a request without a token is
  answered 401 and recorded as a failure; the counter is 1 and the address is not blocked.
\<close>

theorem expired_block_not_renewed_after_login:
  "BLOCKED_IPS after_ten_failures ''10.0.0.9'' = Some 1060
   \<and> BLOCKED_IPS after_login_past_block ''10.0.0.9'' = Some 1060
   \<and> FAILED_ATTEMPTS after_login_past_block ''10.0.0.9'' = 0
   \<and> \<not> fst (is_ip_blocked 1062 ''10.0.0.9'' after_login_past_block)
   \<and> fst (handle (demo_env 1062 [])
            (protected_request GetDocuments ''10.0.0.9'' (NoBearer []) None None)
            after_login_past_block)
       = (Error ''Authentication required'', 401)
   \<and> FAILED_ATTEMPTS (snd (handle (demo_env 1062 [])
            (protected_request GetDocuments ''10.0.0.9'' (NoBearer []) None None)
            after_login_past_block)) ''10.0.0.9'' = 1
   \<and> BLOCKED_IPS (snd (handle (demo_env 1062 [])
            (protected_request GetDocuments ''10.0.0.9'' (NoBearer []) None None)
            after_login_past_block)) ''10.0.0.9'' = None
   \<and> \<not> fst (is_ip_blocked 1062 ''10.0.0.9''
            (snd (handle (demo_env 1062 [])
               (protected_request GetDocuments ''10.0.0.9'' (NoBearer []) None None)
               after_login_past_block)))"
  by (simp add: after_login_past_block_eq after_ten_failures_eq demo_defs demo_users_def)

text \<open>
  Claim C9 as the code has it: \<open>register_failed_attempt\<close> adds one to the counter also
  when it sets a block, and \<open>is_ip_blocked\<close> leaves the counters alone also when it
  drops an expired block; no request but a login answered 200 makes any counter smaller.
  So an address whose counter is still at or above the threshold of 10, as it is after a
  block unless the address has logged in successfully since, is blocked for a full 60
  seconds by a single further recorded failure.
\<close>

theorem counter_kept_and_block_renewed:
  "FAILED_ATTEMPTS (register_failed_attempt t ip st) ip = FAILED_ATTEMPTS st ip + 1
   \<and> FAILED_ATTEMPTS (snd (is_ip_blocked t ip st)) = FAILED_ATTEMPTS st
   \<and> (route r \<noteq> PostLogin \<or> snd (fst (handle e r st)) \<noteq> 200 \<longrightarrow>
        FAILED_ATTEMPTS st ip \<le> FAILED_ATTEMPTS (snd (handle e r st)) ip)
   \<and> (BLOCK_THRESHOLD \<le> FAILED_ATTEMPTS st ip \<longrightarrow>
        BLOCKED_IPS (register_failed_attempt t ip (snd (is_ip_blocked t ip st))) ip
          = Some (t + 60)
        \<and> (\<forall>t'. t' < t + 60 \<longrightarrow>
              fst (is_ip_blocked t' ip
                    (register_failed_attempt t ip (snd (is_ip_blocked t ip st))))))"
proof -
  let ?st1 = "snd (is_ip_blocked t ip st)"
  have a: "FAILED_ATTEMPTS (register_failed_attempt t ip st) ip = FAILED_ATTEMPTS st ip + 1"
    by (simp add: register_failed_attempt_counter)
  have b: "FAILED_ATTEMPTS ?st1 = FAILED_ATTEMPTS st"
    by (simp add: is_ip_blocked_frame)
  have c: "BLOCKED_IPS (register_failed_attempt t ip ?st1) ip = Some (t + 60)"
    if "BLOCK_THRESHOLD \<le> FAILED_ATTEMPTS st ip"
    using that register_failed_attempt_blocks [of ?st1 ip t]
    by (simp add: b BLOCK_DURATION_def)
  have d: "fst (is_ip_blocked t' ip (register_failed_attempt t ip ?st1))"
    if "BLOCK_THRESHOLD \<le> FAILED_ATTEMPTS st ip" "t' < t + 60" for t'
    using is_ip_blocked_active [OF c [OF that(1)] that(2)] .
  show ?thesis using a b c d handle_counter_mono [of r e st ip] by blast
qed

theorem counter_kept_and_block_renewed_witness:
  "BLOCK_THRESHOLD \<le> FAILED_ATTEMPTS after_ten_failures ''10.0.0.9''
   \<and> BLOCKED_IPS after_ten_failures ''10.0.0.9'' = Some 1060
   \<and> \<not> fst (is_ip_blocked 1061 ''10.0.0.9'' after_ten_failures)
   \<and> FAILED_ATTEMPTS (snd (is_ip_blocked 1061 ''10.0.0.9'' after_ten_failures))
       = FAILED_ATTEMPTS after_ten_failures
   \<and> BLOCKED_IPS (register_failed_attempt 1061 ''10.0.0.9''
         (snd (is_ip_blocked 1061 ''10.0.0.9'' after_ten_failures))) ''10.0.0.9''
       = Some 1121
   \<and> fst (is_ip_blocked 1120 ''10.0.0.9''
         (register_failed_attempt 1061 ''10.0.0.9''
            (snd (is_ip_blocked 1061 ''10.0.0.9'' after_ten_failures))))"
proof -
  have h: "BLOCK_THRESHOLD \<le> FAILED_ATTEMPTS after_ten_failures ''10.0.0.9''"
    by (simp add: after_ten_failures_eq BLOCK_THRESHOLD_def)
  have e: "BLOCKED_IPS after_ten_failures ''10.0.0.9'' = Some 1060"
    "\<not> fst (is_ip_blocked 1061 ''10.0.0.9'' after_ten_failures)"
    by (simp_all add: after_ten_failures_eq is_ip_blocked_def)
  from counter_kept_and_block_renewed [of 1061 "''10.0.0.9''" after_ten_failures] h
  have "FAILED_ATTEMPTS (snd (is_ip_blocked 1061 ''10.0.0.9'' after_ten_failures))
          = FAILED_ATTEMPTS after_ten_failures"
    and "BLOCKED_IPS (register_failed_attempt 1061 ''10.0.0.9''
         (snd (is_ip_blocked 1061 ''10.0.0.9'' after_ten_failures))) ''10.0.0.9''
       = Some (1061 + 60)"
    and "\<And>t'. t' < 1061 + 60 \<Longrightarrow> fst (is_ip_blocked t' ''10.0.0.9''
         (register_failed_attempt 1061 ''10.0.0.9''
            (snd (is_ip_blocked 1061 ''10.0.0.9'' after_ten_failures))))"
    by blast+
  from this(1) this(2) this(3) [of 1120] h e show ?thesis by simp
qed

subsection \<open>Rejected uploads\<close>

text \<open>
  Claim C10: an upload that is rejected with 400, because the request has no file part or
  because \<open>validate_pdf\<close> refuses the file, leaves the state it was given as it is: the
  answer is produced before \<^verbatim>\<open>file.save\<close> and before the commit. Through the gateway,
  a 400 answer therefore comes with the same document rows, the same upload folder and
  the same users as before the request.
\<close>

theorem upload_rejected_changes_nothing:
  "(files_file r = None \<longrightarrow>
      upload_document usr e r st = ((Error ''No file uploaded'', 400), st))
   \<and> (\<forall>f. files_file r = Some f \<and> \<not> fst (validate_pdf f) \<longrightarrow>
        upload_document usr e r st = ((Error ''Only PDF files are allowed'', 400), st))
   \<and> (snd (fst (upload_document usr e r st)) = 400 \<longrightarrow>
        snd (upload_document usr e r st) = st)
   \<and> (snd (fst (auth_required upload_document e r st)) = 400 \<longrightarrow>
        documents (snd (auth_required upload_document e r st)) = documents st
        \<and> upload_folder (snd (auth_required upload_document e r st)) = upload_folder st
        \<and> users (snd (auth_required upload_document e r st)) = users st)"
proof -
  have a: "files_file r = None \<Longrightarrow>
      upload_document usr e r st = ((Error ''No file uploaded'', 400), st)" for usr st
    by (simp add: upload_document_def)
  have b: "files_file r = Some f \<Longrightarrow> \<not> fst (validate_pdf f) \<Longrightarrow>
        upload_document usr e r st = ((Error ''Only PDF files are allowed'', 400), st)"
    for f usr st
    by (simp add: upload_document_def case_prod_unfold)
  have c: "snd (fst (upload_document usr e r st)) = 400 \<Longrightarrow>
        snd (upload_document usr e r st) = st" for usr st
    by (auto simp: upload_document_def case_prod_unfold Let_def split: option.splits if_splits)
  have d: "documents (snd (auth_required upload_document e r st)) = documents st
        \<and> upload_folder (snd (auth_required upload_document e r st)) = upload_folder st
        \<and> users (snd (auth_required upload_document e r st)) = users st"
    if "snd (fst (auth_required upload_document e r st)) = 400"
    using that c
    by (auto simp: auth_required_def Let_def case_prod_unfold is_ip_blocked_frame
        register_failed_attempt_frame
        split: if_splits authorization.splits sum.splits jwt_error.splits option.splits)
  show ?thesis using a b c d by blast
qed

theorem upload_rejected_changes_nothing_witness:
  "files_file (protected_request PostUpload ''10.0.0.1''
       (Bearer (demo_token 1 ''test@student.com'' 900)) None None) = None
   \<and> upload_document demo_user_1 (demo_env 2000 ''uuid-c'')
       (protected_request PostUpload ''10.0.0.1''
          (Bearer (demo_token 1 ''test@student.com'' 900)) None None) with_documents
     = ((Error ''No file uploaded'', 400), with_documents)
   \<and> \<not> fst (validate_pdf demo_gif)
   \<and> auth_required upload_document (demo_env 2000 ''uuid-c'')
       (protected_request PostUpload ''10.0.0.1''
          (Bearer (demo_token 1 ''test@student.com'' 900)) (Some demo_gif) None) with_documents
     = ((Error ''Only PDF files are allowed'', 400), with_documents)
   \<and> documents (snd (auth_required upload_document (demo_env 2000 ''uuid-c'')
       (protected_request PostUpload ''10.0.0.1''
          (Bearer (demo_token 1 ''test@student.com'' 900)) (Some demo_gif) None) with_documents))
     = documents with_documents"
proof -
  have g: "\<not> fst (validate_pdf demo_gif)"
    by (simp add: validate_pdf_def demo_gif_def)
  have u: "upload_document demo_user_1 (demo_env 2000 ''uuid-c'')
       (protected_request PostUpload ''10.0.0.1''
          (Bearer (demo_token 1 ''test@student.com'' 900)) (Some demo_gif) None) with_documents
     = ((Error ''Only PDF files are allowed'', 400), with_documents)"
    using g upload_rejected_changes_nothing [of "protected_request PostUpload ''10.0.0.1''
          (Bearer (demo_token 1 ''test@student.com'' 900)) (Some demo_gif) None"
        demo_user_1 "demo_env 2000 ''uuid-c''" with_documents]
    by (simp add: protected_request_def)
  show ?thesis
    using g u upload_rejected_changes_nothing [of "protected_request PostUpload ''10.0.0.1''
          (Bearer (demo_token 1 ''test@student.com'' 900)) None None"
        demo_user_1 "demo_env 2000 ''uuid-c''" with_documents]
    by (simp add: auth_required_authenticated [OF authenticated_demo_1]
        not_blocked_with_documents) (simp add: protected_request_def)
qed

end
